theory Spec2Isabelle
  imports Complex_Main "HOL-Library.Word"
begin

section \<open>The render-object layer of \<^verbatim>\<open>graphics/graphics.go\<close>\<close>

text \<open>
  The package keeps three pieces of mutable state: the viewport size
  (\<^verbatim>\<open>windowWidth\<close>, \<^verbatim>\<open>windowHeight\<close>), the slice \<^verbatim>\<open>renderObjects\<close> of pointers to
  render objects, and the render objects themselves, which the caller owns and passes
  by pointer. The model threads one record through every function. Render objects live
  in a store indexed by address, because the registry and the caller share them.

  Conventions of the embedding:
  \<^item> Go's \<^verbatim>\<open>int\<close> is the 64-bit two's complement integer of a 64-bit platform:
    \<open>64 word\<close>, where \<open>+\<close> and \<open>-\<close> wrap and \<open><s\<close> is the signed comparison.
    (On a 32-bit platform the same happens at \<open>2^31\<close>.)
  \<^item> \<^verbatim>\<open>float32\<close> is a type parameter \<open>'f\<close>. The definitions use only the
    operations the code applies to it (\<open>+\<close>, \<open>-\<close>, \<open>/\<close> and literals); rounding,
    infinities and NaN are not modelled. Theorems that need arithmetic facts say so
    in the sort of \<open>'f\<close> (an ordered field, that is exact arithmetic).
  \<^item> A panic is a value: every function returns its outcome together with the state
    at the moment it returned or panicked.
  \<^item> \<^verbatim>\<open>fmt.Println\<close> appends to \<open>stdout\<close>; calls into the graphics driver that
    leave no state in this package are appended to \<open>glcalls\<close>.
\<close>

type_synonym gint = "64 word"
type_synonym addr = nat

datatype error = Panic string | NilDereference

subsection \<open>The vertex array object of package \<^verbatim>\<open>opengl\<close>\<close>

text \<open>
  Modelled from the spec: the type \<^verbatim>\<open>opengl.VAO\<close> is not part of the sources. The
  spec describes the buffer behind a render object as a vertex buffer of fixed capacity,
  each vertex storing a 2D position and a 2D texture coordinate, with one translation
  and one rotation that a later call replaces. Slots are keyed by vertex index; the
  spec leaves writes outside the capacity to the driver, so the model keeps every write.
  \<open>written\<close> is the end of the range written by the allocation write, which the spec's
  draw call covers.
\<close>

record 'f VAO =
  capacity :: "32 word"
  shaderDefault :: bool
  Texture :: string
  positions :: "int \<Rightarrow> ('f \<times> 'f) option"
  uvs :: "int \<Rightarrow> ('f \<times> 'f) option"
  written :: gint
  translation :: "('f \<times> 'f) option"
  rotation :: "('f \<times> 'f \<times> 'f) option"

text \<open>
  Modelled from the spec: the buffer-write primitives are missing. The spec: a coordinate
  slice is an alternating x, y stream, and each vertex stores one such pair.
\<close>

fun vertices :: "'f list \<Rightarrow> ('f \<times> 'f) list" where
  "vertices (x # y # rest) = (x, y) # vertices rest"
| "vertices _ = []"

text \<open>
  Modelled from the spec: a range write stores the vertices it is given in consecutive
  slots, from the start index on.
\<close>

fun writeRange ::
  "(int \<Rightarrow> ('f \<times> 'f) option) \<Rightarrow> int \<Rightarrow> ('f \<times> 'f) list \<Rightarrow> (int \<Rightarrow> ('f \<times> 'f) option)" where
  "writeRange buf start [] = buf"
| "writeRange buf start (v # vs) = writeRange (buf(start \<mapsto> v)) (start + 1) vs"

text \<open>
  Modelled from the spec: \<^verbatim>\<open>opengl.CreateVAO\<close> and \<^verbatim>\<open>CreateBuffers\<close> are missing.
  The spec: allocates a buffer sized for \<open>capacity\<close> vertices and binds the named texture.
\<close>

definition CreateVAO :: "32 word \<Rightarrow> string \<Rightarrow> bool \<Rightarrow> 'f VAO" where
  "CreateVAO sz texture defaultShader =
     \<lparr> capacity = sz, shaderDefault = defaultShader, Texture = texture,
       positions = Map.empty, uvs = Map.empty, written = 0,
       translation = None, rotation = None \<rparr>"

text \<open>
  Modelled from the spec: \<^verbatim>\<open>VAO.UpdateBufferIndex\<close> is missing. The spec:
  \<^verbatim>\<open>WriteVertexRange(buffer, startIndex, positions, uvs)\<close> writes both attributes
  starting at the vertex \<open>index\<close>.
\<close>

definition UpdateBufferIndex :: "'f VAO \<Rightarrow> gint \<Rightarrow> 'f list \<Rightarrow> 'f list \<Rightarrow> 'f VAO" where
  "UpdateBufferIndex v index verts texs =
     v\<lparr> positions := writeRange (positions v) (sint index) (vertices verts),
        uvs := writeRange (uvs v) (sint index) (vertices texs),
        written := index + word_of_nat (length (vertices verts)) \<rparr>"

text \<open>
  Modelled from the spec: \<^verbatim>\<open>VAO.UpdateVertBufferIndex\<close> is missing. The spec:
  overwrites that slot range in place; does not touch UVs.
\<close>

definition UpdateVertBufferIndex :: "'f VAO \<Rightarrow> gint \<Rightarrow> 'f list \<Rightarrow> 'f VAO" where
  "UpdateVertBufferIndex v index verts =
     v\<lparr> positions := writeRange (positions v) (sint index) (vertices verts) \<rparr>"

text \<open>
  Modelled from the spec: \<^verbatim>\<open>VAO.UpdateTexBufferIndex\<close> is missing. The spec: the
  same, for UV coordinates only.
\<close>

definition UpdateTexBufferIndex :: "'f VAO \<Rightarrow> gint \<Rightarrow> 'f list \<Rightarrow> 'f VAO" where
  "UpdateTexBufferIndex v index texs =
     v\<lparr> uvs := writeRange (uvs v) (sint index) (vertices texs) \<rparr>"

text \<open>
  Modelled from the spec: \<^verbatim>\<open>VAO.SetRotation\<close> and \<^verbatim>\<open>VAO.SetTranslation\<close> are
  missing. The spec: calling again replaces, does not compose.
\<close>

definition SetRotation :: "'f VAO \<Rightarrow> 'f \<Rightarrow> 'f \<Rightarrow> 'f \<Rightarrow> 'f VAO" where
  "SetRotation v x y rad = v\<lparr> rotation := Some (x, y, rad) \<rparr>"

definition SetTranslation :: "'f VAO \<Rightarrow> 'f \<Rightarrow> 'f \<Rightarrow> 'f VAO" where
  "SetTranslation v x y = v\<lparr> translation := Some (x, y) \<rparr>"

text \<open>
  Modelled from the spec: \<^verbatim>\<open>VAO.PrepRender\<close> is missing; it returns the
  \<^verbatim>\<open>int32\<close> vertex count that \<^verbatim>\<open>RenderObject.Render\<close> hands to
  \<^verbatim>\<open>gl.DrawArrays\<close>. The spec: the draw call covers vertex 0 through the free vertex
  offset, not the capacity.
\<close>

definition PrepRender :: "'f VAO \<Rightarrow> 32 word" where
  "PrepRender v = ucast (written v)"

subsection \<open>Package state\<close>

record 'f RenderObject =
  vao :: "'f VAO"
  texture :: string
  freeVert :: gint
  maxVert :: gint

datatype glconst = COLOR_BUFFER_BIT | TRIANGLES

datatype 'f glcall =
    ClearColor 'f 'f 'f 'f
  | Clear glconst
  | PrepRenderCall addr
  | DrawArrays glconst "32 word" "32 word"
  | FinishRenderCall addr
  | Poll

record 'f world =
  windowWidth :: 'f
  windowHeight :: 'f
  heap :: "addr \<Rightarrow> 'f RenderObject option"
  renderObjects :: "addr list"
  stdout :: "'f list"
  glcalls :: "'f glcall list"

text \<open>The package's initial state: an 800 by 600 viewport and no render object.\<close>

definition initial :: "'f::numeral world" where
  "initial = \<lparr> windowWidth = 800, windowHeight = 600, heap = Map.empty,
               renderObjects = [], stdout = [], glcalls = [] \<rparr>"

definition SetWindowSize :: "'f \<Rightarrow> 'f \<Rightarrow> 'f world \<Rightarrow> 'f world" where
  "SetWindowSize width height w = w\<lparr> windowWidth := width, windowHeight := height \<rparr>"

text \<open>
  \<^verbatim>\<open>CreateRenderObject(obj, size, texture, defaultShader)\<close>: \<open>a\<close> is the address in
  \<^verbatim>\<open>obj\<close>. The capacity handed to the driver is \<^verbatim>\<open>uint32(size)\<close>, the fields keep
  \<^verbatim>\<open>size\<close> itself.
\<close>

definition CreateRenderObject :: "addr \<Rightarrow> gint \<Rightarrow> string \<Rightarrow> bool \<Rightarrow> 'f world \<Rightarrow> 'f world" where
  "CreateRenderObject a sz tex defaultShader w =
     (let v = CreateVAO (ucast sz) tex defaultShader;
          obj = \<lparr> vao = v, texture = Texture v, freeVert = 0, maxVert = sz \<rparr>
      in w\<lparr> heap := (heap w)(a \<mapsto> obj), renderObjects := renderObjects w @ [a] \<rparr>)"

subsection \<open>Utility methods\<close>

definition halfWidth :: "'f::{numeral,inverse} world \<Rightarrow> 'f" where
  "halfWidth w = windowWidth w / 2"

definition halfHeight :: "'f::{numeral,inverse} world \<Rightarrow> 'f" where
  "halfHeight w = windowHeight w / 2"

text \<open>
  The loop of \<^verbatim>\<open>PixToScreen\<close>, with the flag \<^verbatim>\<open>even\<close> threaded through as \<open>evn\<close>. It returns
  the normalised coordinates and the values printed on the way (the x values).
\<close>

fun PixToScreen_loop ::
  "'f::{minus,inverse} \<Rightarrow> 'f \<Rightarrow> bool \<Rightarrow> 'f list \<Rightarrow> 'f list \<times> 'f list" where
  "PixToScreen_loop hw hh evn [] = ([], [])"
| "PixToScreen_loop hw hh evn (coord # coords) =
     (let evn' = \<not> evn in
      if evn' then
        (let n = (coord - hw) / hw;
             (ns, ps) = PixToScreen_loop hw hh evn' coords
         in (n # ns, n # ps))
      else
        (let n = (coord - hh) / hh;
             (ns, ps) = PixToScreen_loop hw hh evn' coords
         in (n # ns, ps)))"

definition PixToScreen :: "'f::{numeral,minus,inverse} list \<Rightarrow> 'f world \<Rightarrow> 'f list \<times> 'f world" where
  "PixToScreen coords w =
     (let (normedCoords, printed) = PixToScreen_loop (halfWidth w) (halfHeight w) False coords
      in (normedCoords, w\<lparr> stdout := stdout w @ printed \<rparr>))"

subsection \<open>Render object methods\<close>

text \<open>
  \<^verbatim>\<open>Texture.PixToTex\<close> belongs to the missing package; it is the parameter \<open>ptt\<close>
  (texture, coordinates in, coordinates out) of every function that reaches it.

  A method called on an address that \<^verbatim>\<open>CreateRenderObject\<close> never saw finds nil
  \<^verbatim>\<open>vao\<close> and \<^verbatim>\<open>texture\<close> pointers; the model stops there with \<open>NilDereference\<close>.
\<close>

text \<open>The slice literals \<^verbatim>\<open>verts\<close> and \<^verbatim>\<open>texs\<close> of \<^verbatim>\<open>AddSquare\<close>.\<close>

definition AddSquare_verts :: "'f::{plus,minus} \<Rightarrow> 'f \<Rightarrow> 'f \<Rightarrow> 'f list" where
  "AddSquare_verts x y width =
     [x, y,
      x + width, y,
      x + width, y - width,
      x, y,
      x + width, y - width,
      x, y - width]"

definition AddSquare_texs :: "'f::plus \<Rightarrow> 'f \<Rightarrow> 'f \<Rightarrow> 'f list" where
  "AddSquare_texs xTex yTex widthTex =
     [xTex, yTex,
      xTex + widthTex, yTex,
      xTex + widthTex, yTex + widthTex,
      xTex, yTex,
      xTex + widthTex, yTex + widthTex,
      xTex, yTex + widthTex]"

definition AddSquare ::
  "(string \<Rightarrow> 'f list \<Rightarrow> 'f list) \<Rightarrow> addr \<Rightarrow> 'f \<Rightarrow> 'f \<Rightarrow> 'f \<Rightarrow> 'f \<Rightarrow> 'f \<Rightarrow> 'f \<Rightarrow>
   'f::{numeral,minus,inverse} world \<Rightarrow> (error + gint) \<times> 'f world" where
  "AddSquare ptt a x y xTex yTex width widthTex w =
     (case heap w a of
        None \<Rightarrow> (Inl NilDereference, w)
      | Some obj \<Rightarrow>
          (let verts = AddSquare_verts x y width;
               texs = AddSquare_texs xTex yTex widthTex;
               (verts', w1) = PixToScreen verts w;
               texs' = ptt (texture obj) texs
           in if maxVert obj <s freeVert obj + 6
              then (Inl (Panic ''Render Object Buffer overflow''), w1)
              else
                (let obj1 = obj\<lparr> vao := UpdateBufferIndex (vao obj) (freeVert obj) verts' texs' \<rparr>;
                     obj2 = obj1\<lparr> freeVert := freeVert obj1 + 6 \<rparr>
                 in (Inr (freeVert obj2 - 6), w1\<lparr> heap := (heap w1)(a \<mapsto> obj2) \<rparr>))))"

text \<open>The slice literal \<^verbatim>\<open>verts\<close> of \<^verbatim>\<open>ModifyVertSquare\<close>.\<close>

definition ModifyVertSquare_verts :: "'f::plus \<Rightarrow> 'f \<Rightarrow> 'f \<Rightarrow> 'f list" where
  "ModifyVertSquare_verts x y width =
     [x, y,
      x + width, y,
      x + width, y + width,
      x, y,
      x + width, y + width,
      x, y + width]"

definition ModifyVertSquare ::
  "addr \<Rightarrow> gint \<Rightarrow> 'f \<Rightarrow> 'f \<Rightarrow> 'f \<Rightarrow> 'f::{numeral,minus,inverse} world \<Rightarrow> (error + unit) \<times> 'f world" where
  "ModifyVertSquare a index x y width w =
     (case heap w a of
        None \<Rightarrow> (Inl NilDereference, w)
      | Some obj \<Rightarrow>
          (let verts = ModifyVertSquare_verts x y width;
               (verts', w1) = PixToScreen verts w;
               obj1 = obj\<lparr> vao := UpdateVertBufferIndex (vao obj) index verts' \<rparr>
           in (Inr (), w1\<lparr> heap := (heap w1)(a \<mapsto> obj1) \<rparr>)))"

text \<open>The slice literal \<^verbatim>\<open>texs\<close> of \<^verbatim>\<open>ModifyTexSquare\<close>.\<close>

definition ModifyTexSquare_texs :: "'f::plus \<Rightarrow> 'f \<Rightarrow> 'f \<Rightarrow> 'f list" where
  "ModifyTexSquare_texs xTex yTex widthTex =
     [xTex, yTex,
      xTex + widthTex, yTex,
      xTex + widthTex, yTex + widthTex,
      xTex, yTex,
      xTex + widthTex, yTex + widthTex,
      xTex, yTex + widthTex]"

definition ModifyTexSquare ::
  "(string \<Rightarrow> 'f list \<Rightarrow> 'f list) \<Rightarrow> addr \<Rightarrow> gint \<Rightarrow> 'f \<Rightarrow> 'f \<Rightarrow> 'f \<Rightarrow>
   'f::plus world \<Rightarrow> (error + unit) \<times> 'f world" where
  "ModifyTexSquare ptt a index xTex yTex widthTex w =
     (case heap w a of
        None \<Rightarrow> (Inl NilDereference, w)
      | Some obj \<Rightarrow>
          (let texs = ModifyTexSquare_texs xTex yTex widthTex;
               texs' = ptt (texture obj) texs;
               obj1 = obj\<lparr> vao := UpdateTexBufferIndex (vao obj) index texs' \<rparr>
           in (Inr (), w\<lparr> heap := (heap w)(a \<mapsto> obj1) \<rparr>)))"

definition ModifySquare ::
  "(string \<Rightarrow> 'f list \<Rightarrow> 'f list) \<Rightarrow> addr \<Rightarrow> gint \<Rightarrow> 'f \<Rightarrow> 'f \<Rightarrow> 'f \<Rightarrow> 'f \<Rightarrow> 'f \<Rightarrow> 'f \<Rightarrow>
   'f::{numeral,minus,inverse} world \<Rightarrow> (error + unit) \<times> 'f world" where
  "ModifySquare ptt a index x y xTex yTex width widthTex w =
     (case ModifyVertSquare a index x y width w of
        (Inl e, w1) \<Rightarrow> (Inl e, w1)
      | (Inr u, w1) \<Rightarrow> ModifyTexSquare ptt a index xTex yTex widthTex w1)"

definition ClearSquare ::
  "addr \<Rightarrow> gint \<Rightarrow> 'f::{numeral,zero,minus,inverse} world \<Rightarrow> (error + unit) \<times> 'f world" where
  "ClearSquare a index w = ModifyVertSquare a index 0 0 0 w"

definition RotateSquare ::
  "addr \<Rightarrow> 'f \<Rightarrow> 'f \<Rightarrow> 'f \<Rightarrow> 'f world \<Rightarrow> (error + unit) \<times> 'f world" where
  "RotateSquare a x y rad w =
     (case heap w a of
        None \<Rightarrow> (Inl NilDereference, w)
      | Some obj \<Rightarrow>
          (Inr (), w\<lparr> heap := (heap w)(a \<mapsto> obj\<lparr> vao := SetRotation (vao obj) x y rad \<rparr>) \<rparr>))"

definition TranslateSquare ::
  "addr \<Rightarrow> 'f \<Rightarrow> 'f \<Rightarrow> 'f world \<Rightarrow> (error + unit) \<times> 'f world" where
  "TranslateSquare a x y w =
     (case heap w a of
        None \<Rightarrow> (Inl NilDereference, w)
      | Some obj \<Rightarrow>
          (Inr (), w\<lparr> heap := (heap w)(a \<mapsto> obj\<lparr> vao := SetTranslation (vao obj) x y \<rparr>) \<rparr>))"

subsection \<open>Rendering\<close>

text \<open>
  \<^verbatim>\<open>(obj *RenderObject) Render()\<close>: the vertex count comes from the VAO's
  \<^verbatim>\<open>PrepRender\<close>, the draw call starts at vertex 0.
\<close>

definition RenderObject_Render :: "addr \<Rightarrow> 'f world \<Rightarrow> (error + unit) \<times> 'f world" where
  "RenderObject_Render a w =
     (case heap w a of
        None \<Rightarrow> (Inl NilDereference, w)
      | Some obj \<Rightarrow>
          (let vertNum = PrepRender (vao obj)
           in (Inr (), w\<lparr> glcalls := glcalls w @
                 [PrepRenderCall a, DrawArrays TRIANGLES 0 vertNum, FinishRenderCall a] \<rparr>)))"

text \<open>The loop of the package-level \<^verbatim>\<open>Render\<close> over \<^verbatim>\<open>renderObjects\<close>.\<close>

fun Render_loop :: "addr list \<Rightarrow> 'f world \<Rightarrow> (error + unit) \<times> 'f world" where
  "Render_loop [] w = (Inr (), w)"
| "Render_loop (a # as) w =
     (case RenderObject_Render a w of
        (Inl e, w1) \<Rightarrow> (Inl e, w1)
      | (Inr u, w1) \<Rightarrow> Render_loop as w1)"

definition Render :: "'f::{zero,one} world \<Rightarrow> (error + unit) \<times> 'f world" where
  "Render w =
     (let w1 = w\<lparr> glcalls := glcalls w @ [ClearColor 0 0 0 1, Clear COLOR_BUFFER_BIT] \<rparr>
      in case Render_loop (renderObjects w1) w1 of
           (Inl e, w2) \<Rightarrow> (Inl e, w2)
         | (Inr u, w2) \<Rightarrow> (Inr (), w2\<lparr> glcalls := glcalls w2 @ [Poll] \<rparr>))"

subsection \<open>Sequences of calls\<close>

text \<open>
  The functions a client of the package can call, as data, and a run of a list of calls
  that stops at the first panic (the process is gone then: \<open>None\<close>).
\<close>

datatype 'f call =
    CallCreateRenderObject addr gint string bool
  | CallSetWindowSize 'f 'f
  | CallAddSquare addr 'f 'f 'f 'f 'f 'f
  | CallModifyVertSquare addr gint 'f 'f 'f
  | CallModifyTexSquare addr gint 'f 'f 'f
  | CallModifySquare addr gint 'f 'f 'f 'f 'f 'f
  | CallClearSquare addr gint
  | CallRotateSquare addr 'f 'f 'f
  | CallTranslateSquare addr 'f 'f
  | CallRender

fun step ::
  "(string \<Rightarrow> 'f list \<Rightarrow> 'f list) \<Rightarrow> 'f call \<Rightarrow> 'f::{numeral,zero,minus,inverse} world \<Rightarrow>
   (error + unit) \<times> 'f world" where
  "step ptt (CallCreateRenderObject a sz tex d) w = (Inr (), CreateRenderObject a sz tex d w)"
| "step ptt (CallSetWindowSize width height) w = (Inr (), SetWindowSize width height w)"
| "step ptt (CallAddSquare a x y xTex yTex width widthTex) w =
     (case AddSquare ptt a x y xTex yTex width widthTex w of
        (Inl e, w1) \<Rightarrow> (Inl e, w1)
      | (Inr i, w1) \<Rightarrow> (Inr (), w1))"
| "step ptt (CallModifyVertSquare a index x y width) w = ModifyVertSquare a index x y width w"
| "step ptt (CallModifyTexSquare a index xTex yTex widthTex) w =
     ModifyTexSquare ptt a index xTex yTex widthTex w"
| "step ptt (CallModifySquare a index x y xTex yTex width widthTex) w =
     ModifySquare ptt a index x y xTex yTex width widthTex w"
| "step ptt (CallClearSquare a index) w = ClearSquare a index w"
| "step ptt (CallRotateSquare a x y rad) w = RotateSquare a x y rad w"
| "step ptt (CallTranslateSquare a x y) w = TranslateSquare a x y w"
| "step ptt CallRender w = Render w"

fun run ::
  "(string \<Rightarrow> 'f list \<Rightarrow> 'f list) \<Rightarrow> 'f::{numeral,zero,minus,inverse} world \<Rightarrow> 'f call list \<Rightarrow>
   'f world option" where
  "run ptt w [] = Some w"
| "run ptt w (c # cs) =
     (case step ptt c w of
        (Inl e, w1) \<Rightarrow> None
      | (Inr u, w1) \<Rightarrow> run ptt w1 cs)"

fun is_AddSquare_on :: "addr \<Rightarrow> 'f call \<Rightarrow> bool" where
  "is_AddSquare_on a (CallAddSquare b x y xTex yTex width widthTex) = (a = b)"
| "is_AddSquare_on a c = False"

fun creates :: "addr \<Rightarrow> 'f call \<Rightarrow> bool" where
  "creates a (CallCreateRenderObject b sz tex d) = (a = b)"
| "creates a c = False"

text \<open>
  A stand-in for the missing \<^verbatim>\<open>Texture.PixToTex\<close> where a concrete run is evaluated:
  a texture one pixel wide and high. The theorems hold for every conversion.
\<close>

definition unitPixToTex :: "string \<Rightarrow> 'f list \<Rightarrow> 'f list" where
  "unitPixToTex tex coords = coords"

subsection \<open>The invariant of the data model\<close>

text \<open>
  The spec's invariant of a render object, \<open>0 \<le> freeVertexOffset \<le> maxVertices\<close>, on
  Go's signed integers.
\<close>

definition offsets_in_range :: "'f RenderObject \<Rightarrow> bool" where
  "offsets_in_range obj \<longleftrightarrow> 0 \<le>s freeVert obj \<and> freeVert obj \<le>s maxVert obj"

text \<open>
  What the proofs carry along: the capacity is the one the object was created with, and
  the free offset is a multiple of 6.
\<close>

definition offsets_ok :: "gint \<Rightarrow> 'f RenderObject \<Rightarrow> bool" where
  "offsets_ok C obj \<longleftrightarrow>
     maxVert obj = C \<and> offsets_in_range obj \<and> 6 dvd sint (freeVert obj)"

subsection \<open>Bookkeeping for the proofs\<close>




section \<open>The coordinate mapper\<close>



lemma fst_PixToScreen:
  "fst (PixToScreen coords w) = fst (PixToScreen_loop (halfWidth w) (halfHeight w) False coords)"
  by (simp add: PixToScreen_def case_prod_beta)

lemma snd_PixToScreen:
  "snd (PixToScreen coords w) =
     w\<lparr> stdout := stdout w @ snd (PixToScreen_loop (halfWidth w) (halfHeight w) False coords) \<rparr>"
  by (simp add: PixToScreen_def case_prod_beta)

lemma heap_PixToScreen [simp]: "heap (snd (PixToScreen coords w)) = heap w"
  and renderObjects_PixToScreen [simp]: "renderObjects (snd (PixToScreen coords w)) = renderObjects w"
  and glcalls_PixToScreen [simp]: "glcalls (snd (PixToScreen coords w)) = glcalls w"
  and windowWidth_PixToScreen [simp]: "windowWidth (snd (PixToScreen coords w)) = windowWidth w"
  and windowHeight_PixToScreen [simp]: "windowHeight (snd (PixToScreen coords w)) = windowHeight w"
  by (simp_all add: snd_PixToScreen)



section \<open>Signed 64-bit arithmetic\<close>

lemma sint_add6:
  fixes a :: gint
  assumes "sint a + 6 < 2 ^ 63"
  shows "sint (a + 6) = sint a + 6"
proof -
  have lo: "- (2 ^ 63) \<le> sint a"
    using sint_ge [of a] by simp
  have "sint (a + 6) = signed_take_bit 63 (sint a + sint (6 :: gint))"
    by (simp add: sint_word_ariths)
  also have "\<dots> = signed_take_bit 63 (sint a + 6)"
    by simp
  also have "\<dots> = sint a + 6"
    using lo assms by (intro signed_take_bit_int_eq_self) simp_all
  finally show ?thesis .
qed

lemma sint_add6_wrap:
  fixes a :: gint
  assumes "2 ^ 63 \<le> sint a + 6"
  shows "sint (a + 6) = sint a + 6 - 2 ^ 64"
proof -
  have hi: "sint a < 2 ^ 63"
    using sint_lt [of a] by simp
  have "sint (a + 6) = signed_take_bit 63 (sint a + sint (6 :: gint))"
    by (simp add: sint_word_ariths)
  also have "\<dots> = signed_take_bit 63 (sint a + 6)"
    by simp
  also have "\<dots> = (sint a + 6 + 2 ^ 63) mod 2 ^ 64 - 2 ^ 63"
    by (simp add: signed_take_bit_eq_take_bit_shift take_bit_eq_mod)
  also have "(sint a + 6 + 2 ^ 63) mod 2 ^ 64 = (sint a + 6 + 2 ^ 63 - 2 ^ 64) mod 2 ^ 64"
    by (simp only: minus_mod_self2)
  also have "\<dots> = sint a + 6 + 2 ^ 63 - 2 ^ 64"
    using hi assms by (intro mod_pos_pos_trivial) simp_all
  finally show ?thesis by simp
qed


section \<open>What each call does to the state\<close>

lemma CreateRenderObject_heap:
  "heap (CreateRenderObject a C tex d w) a =
     Some \<lparr> vao = CreateVAO (ucast C) tex d, texture = tex, freeVert = 0, maxVert = C \<rparr>"
  by (simp add: CreateRenderObject_def CreateVAO_def Let_def)

lemma AddSquare_unallocated:
  "heap w a = None \<Longrightarrow> AddSquare ptt a x y xTex yTex width widthTex w = (Inl NilDereference, w)"
  by (simp add: AddSquare_def)

lemma AddSquare_overflow:
  "heap w a = Some obj \<Longrightarrow> maxVert obj <s freeVert obj + 6 \<Longrightarrow>
   AddSquare ptt a x y xTex yTex width widthTex w =
     (Inl (Panic ''Render Object Buffer overflow''), snd (PixToScreen (AddSquare_verts x y width) w))"
  by (simp add: AddSquare_def Let_def case_prod_beta)

lemma AddSquare_success:
  "heap w a = Some obj \<Longrightarrow> \<not> maxVert obj <s freeVert obj + 6 \<Longrightarrow>
   AddSquare ptt a x y xTex yTex width widthTex w =
     (Inr (freeVert obj),
      (snd (PixToScreen (AddSquare_verts x y width) w))
        \<lparr> heap := (heap w)(a \<mapsto> obj
            \<lparr> vao := UpdateBufferIndex (vao obj) (freeVert obj)
                       (fst (PixToScreen (AddSquare_verts x y width) w))
                       (ptt (texture obj) (AddSquare_texs xTex yTex widthTex)),
              freeVert := freeVert obj + 6 \<rparr>) \<rparr>)"
  by (simp add: AddSquare_def Let_def case_prod_beta)

lemma ModifyVertSquare_allocated:
  "heap w a = Some obj \<Longrightarrow>
   ModifyVertSquare a index x y width w =
     (Inr (),
      (snd (PixToScreen (ModifyVertSquare_verts x y width) w))
        \<lparr> heap := (heap w)(a \<mapsto> obj
            \<lparr> vao := UpdateVertBufferIndex (vao obj) index
                       (fst (PixToScreen (ModifyVertSquare_verts x y width) w)) \<rparr>) \<rparr>)"
  by (simp add: ModifyVertSquare_def Let_def case_prod_beta)

lemma ModifyTexSquare_allocated:
  "heap w a = Some obj \<Longrightarrow>
   ModifyTexSquare ptt a index xTex yTex widthTex w =
     (Inr (),
      w\<lparr> heap := (heap w)(a \<mapsto> obj
            \<lparr> vao := UpdateTexBufferIndex (vao obj) index
                       (ptt (texture obj) (ModifyTexSquare_texs xTex yTex widthTex)) \<rparr>) \<rparr>)"
  by (simp add: ModifyTexSquare_def Let_def)

lemma ModifySquare_allocated:
  "heap w a = Some obj \<Longrightarrow>
   ModifySquare ptt a index x y xTex yTex width widthTex w =
     (Inr (),
      (snd (PixToScreen (ModifyVertSquare_verts x y width) w))
        \<lparr> heap := (heap w)(a \<mapsto> obj
            \<lparr> vao := UpdateTexBufferIndex
                       (UpdateVertBufferIndex (vao obj) index
                          (fst (PixToScreen (ModifyVertSquare_verts x y width) w)))
                       index (ptt (texture obj) (ModifyTexSquare_texs xTex yTex widthTex)) \<rparr>) \<rparr>)"
  by (simp add: ModifySquare_def ModifyVertSquare_allocated ModifyTexSquare_allocated)

lemma unallocated:
  "heap w a = None \<Longrightarrow> ModifyVertSquare a index x y width w = (Inl NilDereference, w)"
  "heap w a = None \<Longrightarrow> ModifyTexSquare ptt a index xTex yTex widthTex w = (Inl NilDereference, w)"
  "heap w a = None \<Longrightarrow>
     ModifySquare ptt a index x y xTex yTex width widthTex w = (Inl NilDereference, w)"
  "heap w a = None \<Longrightarrow> ClearSquare a index w = (Inl NilDereference, w)"
  "heap w a = None \<Longrightarrow> RotateSquare a x y rad w = (Inl NilDereference, w)"
  "heap w a = None \<Longrightarrow> TranslateSquare a x y w = (Inl NilDereference, w)"
  by (simp_all add: ModifyVertSquare_def ModifyTexSquare_def ModifySquare_def ClearSquare_def
      RotateSquare_def TranslateSquare_def)

lemma RotateSquare_allocated:
  "heap w a = Some obj \<Longrightarrow>
   RotateSquare a x y rad w =
     (Inr (), w\<lparr> heap := (heap w)(a \<mapsto> obj\<lparr> vao := SetRotation (vao obj) x y rad \<rparr>) \<rparr>)"
  by (simp add: RotateSquare_def)

lemma TranslateSquare_allocated:
  "heap w a = Some obj \<Longrightarrow>
   TranslateSquare a x y w =
     (Inr (), w\<lparr> heap := (heap w)(a \<mapsto> obj\<lparr> vao := SetTranslation (vao obj) x y \<rparr>) \<rparr>)"
  by (simp add: TranslateSquare_def)

lemma writeRange_apply:
  "writeRange buf start vs i =
     (if start \<le> i \<and> i < start + int (length vs) then Some (vs ! nat (i - start)) else buf i)"
proof (induction vs arbitrary: buf start i)
  case Nil
  then show ?case by auto
next
  case (Cons v vs)
  show ?case
  proof (cases "i = start")
    case True
    then show ?thesis by (simp add: Cons.IH)
  next
    case False
    then have "nat (i - start) = Suc (nat (i - (start + 1)))" if "start \<le> i"
      using that by simp
    with False show ?thesis
      by (auto simp: Cons.IH)
  qed
qed

lemma Render_loop_heap:
  "heap (snd (Render_loop as w)) = heap w"
  by (induction as arbitrary: w)
     (auto simp: RenderObject_Render_def Let_def split: option.splits prod.splits sum.splits)

lemma Render_heap: "heap (snd (Render w)) = heap w"
  using Render_loop_heap [of "renderObjects w" "w\<lparr> glcalls := glcalls w @ [ClearColor 0 0 0 1, Clear COLOR_BUFFER_BIT] \<rparr>"]
  by (auto simp: Render_def Let_def split: prod.splits sum.splits)





lemma run_append:
  "run ptt w (cs1 @ cs2) = (case run ptt w cs1 of None \<Rightarrow> None | Some w1 \<Rightarrow> run ptt w1 cs2)"
  by (induction cs1 arbitrary: w) (auto split: prod.splits sum.splits)

section \<open>Successive calls of \<^verbatim>\<open>AddSquare\<close>\<close>

lemma is_AddSquare_onE:
  assumes "is_AddSquare_on a c"
  obtains x y xTex yTex width widthTex where "c = CallAddSquare a x y xTex yTex width widthTex"
  using assms by (cases c) auto

lemma step_AddSquare_success:
  assumes "heap w a = Some obj" and "\<not> maxVert obj <s freeVert obj + 6"
  shows "\<exists>w'. step ptt (CallAddSquare a x y xTex yTex width widthTex) w = (Inr (), w')
           \<and> heap w' a = Some (obj\<lparr> vao := UpdateBufferIndex (vao obj) (freeVert obj)
                       (fst (PixToScreen (AddSquare_verts x y width) w))
                       (ptt (texture obj) (AddSquare_texs xTex yTex widthTex)),
              freeVert := freeVert obj + 6 \<rparr>)"
  using assms by (simp add: AddSquare_success)

text \<open>While the capacity lasts, successive calls succeed and advance the offset by 6 each.\<close>

lemma run_AddSquares:
  assumes "heap w a = Some obj" and "list_all (is_AddSquare_on a) cs"
    and "sint (freeVert obj) + 6 * int (length cs) \<le> sint (maxVert obj)"
  shows "\<exists>w' obj'. run ptt w cs = Some w' \<and> heap w' a = Some obj'
           \<and> sint (freeVert obj') = sint (freeVert obj) + 6 * int (length cs)
           \<and> maxVert obj' = maxVert obj"
  using assms
proof (induction cs arbitrary: w obj)
  case Nil
  then show ?case by simp
next
  case (Cons c cs)
  from Cons.prems(2) obtain x y xTex yTex width widthTex
    where c: "c = CallAddSquare a x y xTex yTex width widthTex"
    by (auto elim: is_AddSquare_onE)
  have "sint (maxVert obj) < 2 ^ 63"
    using sint_lt [of "maxVert obj"] by simp
  with Cons.prems(3) have nowrap: "sint (freeVert obj + 6) = sint (freeVert obj) + 6"
    by (intro sint_add6) simp
  with Cons.prems(3) have room: "\<not> maxVert obj <s freeVert obj + 6"
    by (simp add: word_sless_alt)
  from step_AddSquare_success [OF Cons.prems(1) room, of ptt x y xTex yTex width widthTex]
  obtain w1 obj1 where st: "step ptt c w = (Inr (), w1)" and h1: "heap w1 a = Some obj1"
    and f1: "freeVert obj1 = freeVert obj + 6" and m1: "maxVert obj1 = maxVert obj"
    unfolding c by force
  from Cons.prems(2,3) nowrap f1 m1
  have "list_all (is_AddSquare_on a) cs"
    and "sint (freeVert obj1) + 6 * int (length cs) \<le> sint (maxVert obj1)"
    by simp_all
  from Cons.IH [OF h1 this]
  obtain w' obj' where "run ptt w1 cs = Some w'" "heap w' a = Some obj'"
    "sint (freeVert obj') = sint (freeVert obj1) + 6 * int (length cs)" "maxVert obj' = maxVert obj1"
    by blast
  with st nowrap f1 m1 show ?case
    by auto
qed

text \<open>
  At the top of the range of \<^verbatim>\<open>int\<close> the sum \<^verbatim>\<open>obj.freeVert+6\<close> wraps to a negative
  value, the comparison with \<^verbatim>\<open>obj.maxVert\<close> fails, and the call goes through.
\<close>

lemma run_AddSquares_wrap:
  assumes "heap w a = Some obj" and "list_all (is_AddSquare_on a) cs"
    and "sint (freeVert obj) + 6 * int (length cs) = sint (maxVert obj)"
    and "2 ^ 63 \<le> sint (maxVert obj) + 6"
  shows "\<exists>w' obj'. run ptt w (cs @ [CallAddSquare a x y xTex yTex width widthTex]) = Some w'
           \<and> heap w' a = Some obj'
           \<and> sint (freeVert obj') = sint (maxVert obj) + 6 - 2 ^ 64
           \<and> maxVert obj' = maxVert obj"
proof -
  from run_AddSquares [OF assms(1,2), of ptt] assms(3)
  obtain w1 obj1 where r1: "run ptt w cs = Some w1" and h1: "heap w1 a = Some obj1"
    and f1: "sint (freeVert obj1) = sint (maxVert obj)" and m1: "maxVert obj1 = maxVert obj"
    by auto
  from assms(4) f1 have wrap: "sint (freeVert obj1 + 6) = sint (freeVert obj1) + 6 - 2 ^ 64"
    by (intro sint_add6_wrap) simp
  have "- (2 ^ 63) \<le> sint (maxVert obj)" and "sint (maxVert obj) < 2 ^ 63"
    using sint_ge [of "maxVert obj"] sint_lt [of "maxVert obj"] by simp_all
  with wrap f1 m1 have room: "\<not> maxVert obj1 <s freeVert obj1 + 6"
    by (simp add: word_sless_alt)
  from step_AddSquare_success [OF h1 room, of ptt x y xTex yTex width widthTex]
  obtain w' obj' where "step ptt (CallAddSquare a x y xTex yTex width widthTex) w1 = (Inr (), w')"
    "heap w' a = Some obj'" "freeVert obj' = freeVert obj1 + 6" "maxVert obj' = maxVert obj1"
    by force
  with r1 wrap f1 m1 show ?thesis
    by (auto simp: run_append)
qed


section \<open>Overflow of the buffer\<close>

text \<open>
  Claim C1, with the arithmetic of the code. \<^verbatim>\<open>AddSquare\<close> on a created object panics
  with the overflow message exactly when \<^verbatim>\<open>obj.freeVert+6 > obj.maxVert\<close> holds in Go's
  wrapping 64-bit arithmetic, and returns an index otherwise; as long as
  \<open>freeVert + 6 < 2^63\<close> that is the comparison of the integers. On a fresh object of
  capacity \<open>6 * N\<close> with \<open>6 * N + 6 < 2^63\<close>, \<open>N\<close> successive calls succeed and the next one
  panics.
\<close>

theorem AddSquare_overflow_iff:
  "(heap w a = Some obj \<longrightarrow>
      (fst (AddSquare ptt a x y xTex yTex width widthTex w) = Inl (Panic ''Render Object Buffer overflow'')
         \<longleftrightarrow> maxVert obj <s freeVert obj + 6)
    \<and> ((\<exists>i. fst (AddSquare ptt a x y xTex yTex width widthTex w) = Inr i)
         \<longleftrightarrow> \<not> maxVert obj <s freeVert obj + 6)
    \<and> (sint (freeVert obj) + 6 < 2 ^ 63 \<longrightarrow>
         (maxVert obj <s freeVert obj + 6 \<longleftrightarrow> sint (maxVert obj) < sint (freeVert obj) + 6)))
   \<and> (sint C = 6 * int N \<and> sint C + 6 < 2 ^ 63 \<and> length cs = N \<and> list_all (is_AddSquare_on a) cs \<longrightarrow>
        (\<exists>w'. run ptt (CreateRenderObject a C tex d w0) cs = Some w'
           \<and> fst (AddSquare ptt a x y xTex yTex width widthTex w')
               = Inl (Panic ''Render Object Buffer overflow'')))"
proof (intro conjI impI)
  assume h: "heap w a = Some obj"
  show "fst (AddSquare ptt a x y xTex yTex width widthTex w) = Inl (Panic ''Render Object Buffer overflow'')
         \<longleftrightarrow> maxVert obj <s freeVert obj + 6"
    using h by (cases "maxVert obj <s freeVert obj + 6") (simp_all add: AddSquare_overflow AddSquare_success)
  show "(\<exists>i. fst (AddSquare ptt a x y xTex yTex width widthTex w) = Inr i)
         \<longleftrightarrow> \<not> maxVert obj <s freeVert obj + 6"
    using h by (cases "maxVert obj <s freeVert obj + 6") (simp_all add: AddSquare_overflow AddSquare_success)
next
  assume "sint (freeVert obj) + 6 < 2 ^ 63"
  then show "maxVert obj <s freeVert obj + 6 \<longleftrightarrow> sint (maxVert obj) < sint (freeVert obj) + 6"
    by (simp add: word_sless_alt sint_add6)
next
  assume a: "sint C = 6 * int N \<and> sint C + 6 < 2 ^ 63 \<and> length cs = N \<and> list_all (is_AddSquare_on a) cs"
  let ?W = "CreateRenderObject a C tex d w0"
  let ?obj0 = "\<lparr> vao = CreateVAO (ucast C) tex d, texture = tex, freeVert = 0, maxVert = C \<rparr> :: 'a RenderObject"
  have h0: "heap ?W a = Some ?obj0"
    by (rule CreateRenderObject_heap)
  from a have "list_all (is_AddSquare_on a) cs"
    and "sint (freeVert ?obj0) + 6 * int (length cs) \<le> sint (maxVert ?obj0)"
    by simp_all
  from run_AddSquares [OF h0 this, of ptt]
  obtain w' obj' where r: "run ptt ?W cs = Some w'" and h': "heap w' a = Some obj'"
    and f: "sint (freeVert obj') = 6 * int N" and m: "maxVert obj' = C"
    using a by auto
  from a f have "sint (freeVert obj' + 6) = sint (freeVert obj') + 6"
    by (intro sint_add6) simp
  with a f m have "maxVert obj' <s freeVert obj' + 6"
    by (simp add: word_sless_alt)
  with h' have "fst (AddSquare ptt a x y xTex yTex width widthTex w')
      = Inl (Panic ''Render Object Buffer overflow'')"
    by (simp add: AddSquare_overflow)
  with r show "\<exists>w'. run ptt ?W cs = Some w'
           \<and> fst (AddSquare ptt a x y xTex yTex width widthTex w')
               = Inl (Panic ''Render Object Buffer overflow'')"
    by blast
qed

theorem AddSquare_overflow_iff_witness:
  "fst (AddSquare unitPixToTex 0 0 0 0 0 1 1 (CreateRenderObject 0 0 ''tex'' True (initial :: real world)))
     = Inl (Panic ''Render Object Buffer overflow'')
   \<and> (\<exists>i. fst (AddSquare unitPixToTex 0 0 0 0 0 1 1 (CreateRenderObject 0 6 ''tex'' True (initial :: real world)))
         = Inr i)
   \<and> (\<exists>w'. run unitPixToTex (CreateRenderObject 0 12 ''tex'' True (initial :: real world))
              [CallAddSquare 0 0 0 0 0 1 1, CallAddSquare 0 10 10 0 0 1 1] = Some w'
          \<and> fst (AddSquare unitPixToTex 0 20 20 0 0 1 1 w') = Inl (Panic ''Render Object Buffer overflow''))"
proof -
  let ?obj = "\<lambda>C. \<lparr> vao = CreateVAO (ucast C) ''tex'' True, texture = ''tex'', freeVert = 0, maxVert = C \<rparr>
    :: real RenderObject"
  have h0: "heap (CreateRenderObject 0 0 ''tex'' True (initial :: real world)) 0 = Some (?obj 0)"
    by (rule CreateRenderObject_heap)
  have h6: "heap (CreateRenderObject 0 6 ''tex'' True (initial :: real world)) 0 = Some (?obj 6)"
    by (rule CreateRenderObject_heap)
  have c: "sint (12 :: gint) = 6 * int 2 \<and> sint (12 :: gint) + 6 < 2 ^ 63
      \<and> length [CallAddSquare 0 0 0 0 0 1 1, CallAddSquare 0 10 10 0 0 (1 :: real) 1] = 2
      \<and> list_all (is_AddSquare_on 0) [CallAddSquare 0 0 0 0 0 1 1, CallAddSquare 0 10 10 0 0 (1 :: real) 1]"
    by simp
  from AddSquare_overflow_iff [where w = "CreateRenderObject 0 0 ''tex'' True (initial :: real world)"
      and a = 0 and obj = "?obj 0" and ptt = unitPixToTex and x = 0 and y = 0 and xTex = 0 and yTex = 0
      and width = 1 and widthTex = 1 and C = 12 and N = 2]
    h0
  have 1: "fst (AddSquare unitPixToTex 0 0 0 0 0 1 1 (CreateRenderObject 0 0 ''tex'' True (initial :: real world)))
     = Inl (Panic ''Render Object Buffer overflow'')"
    by simp
  from AddSquare_overflow_iff [where w = "CreateRenderObject 0 6 ''tex'' True (initial :: real world)"
      and a = 0 and obj = "?obj 6" and ptt = unitPixToTex and x = 0 and y = 0 and xTex = 0 and yTex = 0
      and width = 1 and widthTex = 1 and C = 12 and N = 2]
    h6
  have 2: "\<exists>i. fst (AddSquare unitPixToTex 0 0 0 0 0 1 1 (CreateRenderObject 0 6 ''tex'' True (initial :: real world)))
         = Inr i"
    by simp
  from AddSquare_overflow_iff [where w = "CreateRenderObject 0 6 ''tex'' True (initial :: real world)"
      and a = 0 and obj = "?obj 6" and ptt = unitPixToTex and x = 20 and y = 20 and xTex = 0 and yTex = 0
      and width = 1 and widthTex = 1 and C = 12 and N = 2
      and cs = "[CallAddSquare 0 0 0 0 0 1 1, CallAddSquare 0 10 10 0 0 1 1]"
      and tex = "''tex''" and d = True and ?w0.0 = "initial :: real world"]
    c
  have 3: "\<exists>w'. run unitPixToTex (CreateRenderObject 0 12 ''tex'' True (initial :: real world))
              [CallAddSquare 0 0 0 0 0 1 1, CallAddSquare 0 10 10 0 0 1 1] = Some w'
          \<and> fst (AddSquare unitPixToTex 0 20 20 0 0 1 1 w') = Inl (Panic ''Render Object Buffer overflow'')"
    by blast
  from 1 2 3 show ?thesis by blast
qed

text \<open>
  Without the bound the second half of the claim fails: on a fresh object of capacity
  \<open>6 * N = 2^63 - 2\<close> the call number \<open>N + 1\<close> does not panic.
\<close>

theorem AddSquare_overflow_counterexample:
  "sint (9223372036854775806 :: gint) = 6 * 1537228672809129301
   \<and> run unitPixToTex (CreateRenderObject 0 9223372036854775806 ''tex'' True (initial :: real world))
        (replicate 1537228672809129301 (CallAddSquare 0 0 0 0 0 1 1) @ [CallAddSquare 0 0 0 0 0 1 1])
      \<noteq> None"
proof -
  let ?W = "CreateRenderObject 0 9223372036854775806 ''tex'' True (initial :: real world)"
  let ?obj0 = "\<lparr> vao = CreateVAO (ucast (9223372036854775806 :: gint)) ''tex'' True, texture = ''tex'',
    freeVert = 0, maxVert = 9223372036854775806 \<rparr> :: real RenderObject"
  let ?cs = "replicate 1537228672809129301 (CallAddSquare 0 0 0 0 0 (1 :: real) 1)"
  have h0: "heap ?W 0 = Some ?obj0"
    by (rule CreateRenderObject_heap)
  have l: "list_all (is_AddSquare_on 0) ?cs"
    by (simp add: list_all_iff)
  have e: "sint (freeVert ?obj0) + 6 * int (length ?cs) = sint (maxVert ?obj0)"
    by simp
  have t: "2 ^ 63 \<le> sint (maxVert ?obj0) + 6"
    by simp
  from run_AddSquares_wrap [OF h0 l e t, of unitPixToTex 0 0 0 0 1 1]
  show ?thesis by auto
qed

text \<open>
  Claim C10. When \<^verbatim>\<open>AddSquare\<close> panics, the state at the panic differs from the state
  before the call in nothing but the lines \<^verbatim>\<open>PixToScreen\<close> printed: every render
  object, with its free offset and its buffers, and the registry are as they were.
\<close>

theorem AddSquare_panic_atomic:
  assumes "AddSquare ptt a x y xTex yTex width widthTex w = (Inl e, w')"
  shows "heap w' = heap w \<and> renderObjects w' = renderObjects w \<and> glcalls w' = glcalls w
    \<and> windowWidth w' = windowWidth w \<and> windowHeight w' = windowHeight w
    \<and> w' = w\<lparr> stdout := stdout w' \<rparr>"
proof (cases "heap w a")
  case None
  with assms show ?thesis
    by (simp add: AddSquare_unallocated)
next
  case (Some obj)
  with assms have "maxVert obj <s freeVert obj + 6"
    by (cases "maxVert obj <s freeVert obj + 6") (simp_all add: AddSquare_success)
  with assms Some have "w' = snd (PixToScreen (AddSquare_verts x y width) w)"
    by (simp add: AddSquare_overflow)
  then show ?thesis
    by (simp add: snd_PixToScreen)
qed

theorem AddSquare_panic_atomic_witness:
  "fst (AddSquare unitPixToTex 0 100 100 0 0 50 1 (CreateRenderObject 0 5 ''tex'' True (initial :: real world)))
     = Inl (Panic ''Render Object Buffer overflow'')
   \<and> heap (snd (AddSquare unitPixToTex 0 100 100 0 0 50 1
        (CreateRenderObject 0 5 ''tex'' True (initial :: real world))))
     = heap (CreateRenderObject 0 5 ''tex'' True (initial :: real world))
   \<and> stdout (snd (AddSquare unitPixToTex 0 100 100 0 0 50 1
        (CreateRenderObject 0 5 ''tex'' True (initial :: real world))))
     = [- (3 / 4), - (5 / 8), - (5 / 8), - (3 / 4), - (5 / 8), - (3 / 4)]"
proof -
  let ?W = "CreateRenderObject 0 5 ''tex'' True (initial :: real world)"
  let ?obj0 = "\<lparr> vao = CreateVAO (ucast (5 :: gint)) ''tex'' True, texture = ''tex'',
    freeVert = 0, maxVert = 5 \<rparr> :: real RenderObject"
  have h0: "heap ?W 0 = Some ?obj0"
    by (rule CreateRenderObject_heap)
  have over: "maxVert ?obj0 <s freeVert ?obj0 + 6"
    by (simp add: word_sless_alt)
  have p: "AddSquare unitPixToTex 0 100 100 0 0 50 1 ?W
    = (Inl (Panic ''Render Object Buffer overflow''), snd (AddSquare unitPixToTex 0 100 100 0 0 50 1 ?W))"
    by (simp add: AddSquare_overflow [OF h0 over])
  have "stdout (snd (PixToScreen (AddSquare_verts 100 100 50) ?W))
     = [- (3 / 4), - (5 / 8), - (5 / 8), - (3 / 4), - (5 / 8), - (3 / 4)]"
    by (simp add: snd_PixToScreen AddSquare_verts_def halfWidth_def halfHeight_def Let_def
        CreateRenderObject_def initial_def)
  then have out: "stdout (snd (AddSquare unitPixToTex 0 100 100 0 0 50 1 ?W))
     = [- (3 / 4), - (5 / 8), - (5 / 8), - (3 / 4), - (5 / 8), - (3 / 4)]"
    by (simp only: AddSquare_overflow [OF h0 over] snd_conv)
  from AddSquare_panic_atomic [OF p] p out show ?thesis
    by simp
qed

section \<open>The index returned by \<^verbatim>\<open>AddSquare\<close>\<close>



section \<open>The offsets of a render object\<close>

lemma offsets_ok_no_wrap:
  assumes "offsets_ok C obj" and "sint C \<le> 2 ^ 63 - 3"
  shows "sint (freeVert obj + 6) = sint (freeVert obj) + 6"
proof -
  from assms have "sint (freeVert obj) \<le> 9223372036854775805" and "6 dvd sint (freeVert obj)"
    by (auto simp: offsets_ok_def offsets_in_range_def word_sle_eq)
  then have "sint (freeVert obj) \<le> 9223372036854775800"
    by presburger
  then show ?thesis
    by (intro sint_add6) simp
qed

lemma offsets_ok_advance:
  assumes "offsets_ok C obj" and "sint C \<le> 2 ^ 63 - 3" and "\<not> maxVert obj <s freeVert obj + 6"
  shows "offsets_ok C (obj\<lparr> vao := v, freeVert := freeVert obj + 6 \<rparr>)"
    and "freeVert obj \<le>s freeVert obj + 6"
  using assms offsets_ok_no_wrap [OF assms(1,2)]
  by (simp_all add: offsets_ok_def offsets_in_range_def word_sle_eq word_sless_alt)

lemma step_offsets_ok:
  assumes "heap w a = Some obj" and "offsets_ok C obj" and "sint C \<le> 2 ^ 63 - 3"
    and "\<not> creates a c" and "step ptt c w = (Inr u, w')"
  shows "\<exists>obj'. heap w' a = Some obj' \<and> offsets_ok C obj' \<and> freeVert obj \<le>s freeVert obj'"
proof (cases c)
  case (CallCreateRenderObject b sz tex d)
  with assms show ?thesis
    by (auto simp: CreateRenderObject_def Let_def)
next
  case (CallSetWindowSize width height)
  with assms show ?thesis
    by (auto simp: SetWindowSize_def)
next
  case (CallAddSquare b x y xTex yTex width widthTex)
  show ?thesis
  proof (cases "heap w b")
    case None
    with assms CallAddSquare show ?thesis
      by (simp add: AddSquare_unallocated)
  next
    case (Some objb)
    show ?thesis
    proof (cases "maxVert objb <s freeVert objb + 6")
      case True
      with assms CallAddSquare Some show ?thesis
        by (simp add: AddSquare_overflow)
    next
      case False
      show ?thesis
      proof (cases "b = a")
        case True
        with assms Some have "objb = obj" by simp
        with assms CallAddSquare Some False True
          offsets_ok_advance [OF assms(2,3)]
        show ?thesis
          by (auto simp: AddSquare_success)
      next
        case neq: False
        with assms CallAddSquare Some False show ?thesis
          by (auto simp: AddSquare_success)
      qed
    qed
  qed
next
  case (CallModifyVertSquare b index x y width)
  with assms show ?thesis
    by (cases "heap w b") (auto simp: ModifyVertSquare_allocated unallocated offsets_ok_def offsets_in_range_def)
next
  case (CallModifyTexSquare b index xTex yTex widthTex)
  with assms show ?thesis
    by (cases "heap w b") (auto simp: ModifyTexSquare_allocated unallocated offsets_ok_def offsets_in_range_def)
next
  case (CallModifySquare b index x y xTex yTex width widthTex)
  with assms show ?thesis
    by (cases "heap w b") (auto simp: ModifySquare_allocated unallocated offsets_ok_def offsets_in_range_def)
next
  case (CallClearSquare b index)
  with assms show ?thesis
    by (cases "heap w b")
       (auto simp: ClearSquare_def ModifyVertSquare_allocated unallocated(1) offsets_ok_def offsets_in_range_def)
next
  case (CallRotateSquare b x y rad)
  with assms show ?thesis
    by (cases "heap w b") (auto simp: RotateSquare_allocated unallocated offsets_ok_def offsets_in_range_def)
next
  case (CallTranslateSquare b x y)
  with assms show ?thesis
    by (cases "heap w b") (auto simp: TranslateSquare_allocated unallocated offsets_ok_def offsets_in_range_def)
next
  case CallRender
  with assms Render_heap [of w] show ?thesis
    by auto
qed

lemma run_offsets_ok:
  assumes "heap w a = Some obj" and "offsets_ok C obj" and "sint C \<le> 2 ^ 63 - 3"
    and "\<forall>c \<in> set cs. \<not> creates a c" and "run ptt w cs = Some w'"
  shows "\<exists>obj'. heap w' a = Some obj' \<and> offsets_ok C obj' \<and> freeVert obj \<le>s freeVert obj'"
  using assms
proof (induction cs arbitrary: w obj)
  case Nil
  then show ?case by (auto simp: word_sle_eq)
next
  case (Cons c cs)
  from Cons.prems(5) obtain u w1 where st: "step ptt c w = (Inr u, w1)" and r: "run ptt w1 cs = Some w'"
    by (auto split: prod.splits sum.splits)
  from Cons.prems have nc: "\<not> creates a c" and ncs: "\<forall>c \<in> set cs. \<not> creates a c"
    by simp_all
  from step_offsets_ok [OF Cons.prems(1,2,3) nc st]
  obtain obj1 where o1: "heap w1 a = Some obj1" "offsets_ok C obj1" "freeVert obj \<le>s freeVert obj1"
    by blast
  from Cons.IH [OF o1(1,2) Cons.prems(3) ncs r]
  obtain obj' where "heap w' a = Some obj'" "offsets_ok C obj'" "freeVert obj1 \<le>s freeVert obj'"
    by blast
  with o1(3) show ?case
    by (auto simp: word_sle_eq)
qed

text \<open>
  Claim C4, with the bounds it needs. For a render object created with a capacity \<open>C\<close>
  with \<open>0 \<le> C \<le> 2^63 - 3\<close>, and every sequence of calls that does not create the object
  again and completes without a panic: the free offset starts at 0, the invariant
  \<open>0 \<le> freeVert \<le> maxVert\<close> holds after every prefix of the sequence (\<open>cs1\<close>) and at its
  end, \<open>maxVert\<close> stays \<open>C\<close>, and \<open>freeVert\<close> never decreases from one state to a later one.
\<close>

theorem offsets_invariant:
  assumes "0 \<le> sint C" and "sint C \<le> 2 ^ 63 - 3"
    and "\<forall>c \<in> set (cs1 @ cs2). \<not> creates a c"
    and "run ptt (CreateRenderObject a C tex d w) (cs1 @ cs2) = Some w2"
  shows "\<exists>obj0 w1 obj1 obj2.
      heap (CreateRenderObject a C tex d w) a = Some obj0 \<and> freeVert obj0 = 0 \<and> maxVert obj0 = C
    \<and> run ptt (CreateRenderObject a C tex d w) cs1 = Some w1 \<and> run ptt w1 cs2 = Some w2
    \<and> heap w1 a = Some obj1 \<and> heap w2 a = Some obj2
    \<and> offsets_in_range obj1 \<and> maxVert obj1 = C
    \<and> offsets_in_range obj2 \<and> maxVert obj2 = C
    \<and> freeVert obj1 \<le>s freeVert obj2"
proof -
  let ?W = "CreateRenderObject a C tex d w"
  let ?obj0 = "\<lparr> vao = CreateVAO (ucast C) tex d, texture = tex, freeVert = 0, maxVert = C \<rparr> :: 'a RenderObject"
  have h0: "heap ?W a = Some ?obj0"
    by (rule CreateRenderObject_heap)
  have ok0: "offsets_ok C ?obj0"
    using assms(1) by (simp add: offsets_ok_def offsets_in_range_def word_sle_eq)
  from assms(4) obtain w1 where r1: "run ptt ?W cs1 = Some w1" and r2: "run ptt w1 cs2 = Some w2"
    by (auto simp: run_append split: option.splits)
  from assms(3) have n1: "\<forall>c \<in> set cs1. \<not> creates a c" and n2: "\<forall>c \<in> set cs2. \<not> creates a c"
    by simp_all
  from run_offsets_ok [OF h0 ok0 assms(2) n1 r1]
  obtain obj1 where o1: "heap w1 a = Some obj1" "offsets_ok C obj1"
    by blast
  from run_offsets_ok [OF o1 assms(2) n2 r2]
  obtain obj2 where o2: "heap w2 a = Some obj2" "offsets_ok C obj2" "freeVert obj1 \<le>s freeVert obj2"
    by blast
  from h0 r1 r2 o1 o2 show ?thesis
    by (auto simp: offsets_ok_def)
qed

theorem offsets_invariant_witness:
  "\<exists>w1 w2 obj1 obj2.
      run unitPixToTex (CreateRenderObject 0 12 ''tex'' True (initial :: real world))
        [CallAddSquare 0 0 0 0 0 1 1] = Some w1
    \<and> run unitPixToTex w1 [CallClearSquare 0 0, CallAddSquare 0 10 10 0 0 1 1, CallRender] = Some w2
    \<and> heap w1 0 = Some obj1 \<and> heap w2 0 = Some obj2
    \<and> offsets_in_range obj1 \<and> maxVert obj1 = 12
    \<and> offsets_in_range obj2 \<and> maxVert obj2 = 12
    \<and> freeVert obj1 \<le>s freeVert obj2"
proof -
  let ?W = "CreateRenderObject 0 12 ''tex'' True (initial :: real world)"
  let ?cs1 = "[CallAddSquare 0 0 0 0 0 (1 :: real) 1]"
  let ?cs2 = "[CallClearSquare 0 0, CallAddSquare 0 10 10 0 0 (1 :: real) 1, CallRender]"
  have h1: "0 \<le> sint (12 :: gint)" and h2: "sint (12 :: gint) \<le> 2 ^ 63 - 3"
    by simp_all
  have h3: "\<forall>c \<in> set (?cs1 @ ?cs2). \<not> creates 0 c"
    by simp
  have "run unitPixToTex ?W (?cs1 @ ?cs2) \<noteq> None"
    by (simp add: CreateRenderObject_def CreateVAO_def AddSquare_def ClearSquare_def
        ModifyVertSquare_def Render_def RenderObject_Render_def Let_def case_prod_beta
        word_sless_alt initial_def PixToScreen_def)
  then obtain w2 where h4: "run unitPixToTex ?W (?cs1 @ ?cs2) = Some w2"
    by blast
  from offsets_invariant [OF h1 h2 h3 h4] show ?thesis
    by blast
qed

text \<open>
  The claim without the bounds fails at both ends. A negative capacity breaks the
  invariant at creation: \<^verbatim>\<open>CreateRenderObject(obj, 6 - 1<<32, ...)\<close> hands the driver
  \<^verbatim>\<open>uint32(size) = 6\<close> and stores \<open>maxVert = -4294967290\<close> below \<open>freeVert = 0\<close>. With the
  capacity \<open>2^63 - 2\<close> the sum \<^verbatim>\<open>obj.freeVert+6\<close> wraps once the buffer is full, the call
  goes through and leaves a negative \<open>freeVert\<close>.
\<close>

theorem offsets_invariant_counterexample:
  "map_option offsets_in_range
     (heap (CreateRenderObject 0 (- 4294967290) ''tex'' True (initial :: real world)) 0) = Some False
   \<and> map_option capacity (map_option vao
       (heap (CreateRenderObject 0 (- 4294967290) ''tex'' True (initial :: real world)) 0)) = Some 6
   \<and> run unitPixToTex (CreateRenderObject 0 9223372036854775806 ''tex'' True (initial :: real world))
        (replicate 1537228672809129301 (CallAddSquare 0 0 0 0 0 1 1) @ [CallAddSquare 0 0 0 0 0 1 1])
      \<noteq> None
   \<and> map_option offsets_in_range
       (heap (the (run unitPixToTex
          (CreateRenderObject 0 9223372036854775806 ''tex'' True (initial :: real world))
          (replicate 1537228672809129301 (CallAddSquare 0 0 0 0 0 1 1) @ [CallAddSquare 0 0 0 0 0 1 1])))
        0) = Some False"
proof -
  let ?W = "CreateRenderObject 0 9223372036854775806 ''tex'' True (initial :: real world)"
  let ?obj0 = "\<lparr> vao = CreateVAO (ucast (9223372036854775806 :: gint)) ''tex'' True, texture = ''tex'',
    freeVert = 0, maxVert = 9223372036854775806 \<rparr> :: real RenderObject"
  let ?cs = "replicate 1537228672809129301 (CallAddSquare 0 0 0 0 0 (1 :: real) 1)"
  have h0: "heap ?W 0 = Some ?obj0"
    by (rule CreateRenderObject_heap)
  have l: "list_all (is_AddSquare_on 0) ?cs"
    by (simp add: list_all_iff)
  have e: "sint (freeVert ?obj0) + 6 * int (length ?cs) = sint (maxVert ?obj0)"
    by simp
  have t: "2 ^ 63 \<le> sint (maxVert ?obj0) + 6"
    by simp
  from run_AddSquares_wrap [OF h0 l e t, of unitPixToTex 0 0 0 0 1 1]
  obtain w' obj' where r: "run unitPixToTex ?W (?cs @ [CallAddSquare 0 0 0 0 0 1 1]) = Some w'"
    and h: "heap w' 0 = Some obj'" and f: "sint (freeVert obj') = - 9223372036854775804"
    by auto
  from f have "\<not> offsets_in_range obj'"
    by (simp add: offsets_in_range_def word_sle_eq)
  with r h have over: "run unitPixToTex ?W (?cs @ [CallAddSquare 0 0 0 0 0 1 1]) \<noteq> None
    \<and> map_option offsets_in_range
        (heap (the (run unitPixToTex ?W (?cs @ [CallAddSquare 0 0 0 0 0 1 1]))) 0) = Some False"
    by simp
  have neg: "map_option offsets_in_range
     (heap (CreateRenderObject 0 (- 4294967290) ''tex'' True (initial :: real world)) 0) = Some False
   \<and> map_option capacity (map_option vao
       (heap (CreateRenderObject 0 (- 4294967290) ''tex'' True (initial :: real world)) 0)) = Some 6"
    by (simp add: CreateRenderObject_heap offsets_in_range_def word_sle_eq CreateVAO_def)
  from neg over show ?thesis
    by blast
qed

section \<open>The geometry of a square\<close>

text \<open>
  The vertex literals of \<^verbatim>\<open>AddSquare\<close> and \<^verbatim>\<open>ModifyVertSquare\<close> agree for a square
  of width 0 only; the texture literals of \<^verbatim>\<open>AddSquare\<close> and \<^verbatim>\<open>ModifyTexSquare\<close>
  are the same.
\<close>

lemma square_literals_agree_iff:
  fixes x y width :: "'f::linordered_field"
  shows "AddSquare_verts x y width = ModifyVertSquare_verts x y width \<longleftrightarrow> width = 0"
  by (auto simp: AddSquare_verts_def ModifyVertSquare_verts_def)

lemma texture_literals_agree:
  "AddSquare_texs xTex yTex widthTex = ModifyTexSquare_texs xTex yTex widthTex"
  by (simp add: AddSquare_texs_def ModifyTexSquare_texs_def)

text \<open>
  Claim C5 says that \<^verbatim>\<open>ModifyVertSquare\<close>, called with the index \<^verbatim>\<open>AddSquare\<close>
  returned and the position and width \<^verbatim>\<open>AddSquare\<close> was given, writes the six vertices
  \<^verbatim>\<open>AddSquare\<close> wrote. The code does not do that. \<^verbatim>\<open>AddSquare\<close> builds the square
  downwards from \<open>(x, y)\<close>, the top left of its comment, with corners at \<open>y - width\<close>;
  \<^verbatim>\<open>ModifyVertSquare\<close> builds it upwards, with corners at \<open>y + width\<close>. In an 800 by
  600 viewport, the square added at \<open>(100, 100)\<close> with width 50 has its third vertex at
  \<open>(150, 50)\<close>, normalised \<open>(-5/8, -5/6)\<close>; \<^verbatim>\<open>ModifyVertSquare\<close> with the same position
  and width moves that vertex to \<open>(150, 150)\<close>, normalised \<open>(-5/8, -1/2)\<close>.
\<close>

theorem ModifyVertSquare_geometry_differs:
  "AddSquare_verts (100 :: real) 100 50
     = [100, 100, 150, 100, 150, 50, 100, 100, 150, 50, 100, 50]
   \<and> ModifyVertSquare_verts (100 :: real) 100 50
     = [100, 100, 150, 100, 150, 150, 100, 100, 150, 150, 100, 150]
   \<and> fst (AddSquare unitPixToTex 0 100 100 0 0 50 1
        (CreateRenderObject 0 6 ''tex'' True (initial :: real world))) = Inr 0
   \<and> positions (vao (the (heap (snd (AddSquare unitPixToTex 0 100 100 0 0 50 1
        (CreateRenderObject 0 6 ''tex'' True (initial :: real world)))) 0))) 2
     = Some (- (5 / 8), - (5 / 6))
   \<and> positions (vao (the (heap (snd (ModifyVertSquare 0 0 100 100 50
        (snd (AddSquare unitPixToTex 0 100 100 0 0 50 1
          (CreateRenderObject 0 6 ''tex'' True (initial :: real world)))))) 0))) 2
     = Some (- (5 / 8), - (1 / 2))"
  by (simp add: AddSquare_verts_def ModifyVertSquare_verts_def AddSquare_def ModifyVertSquare_def
      CreateRenderObject_def CreateVAO_def UpdateBufferIndex_def UpdateVertBufferIndex_def
      PixToScreen_def halfWidth_def halfHeight_def initial_def Let_def case_prod_beta
      word_sless_alt)

section \<open>The frame\<close>












section \<open>Modifying a square in place\<close>

text \<open>
  Claim C7. \<^verbatim>\<open>ClearSquare(i)\<close> is \<^verbatim>\<open>ModifyVertSquare(i, 0, 0, 0)\<close>: same outcome and
  same state. On a created object it succeeds, keeps the free offset, the capacity and
  the UV data, leaves every other object and every other slot alone, and writes one and
  the same point, the image of the pixel \<open>(0, 0)\<close>, into the six slots from \<open>i\<close> on.
\<close>

theorem ClearSquare_collapses:
  fixes w :: "'f::field world"
  shows "ClearSquare a index w = ModifyVertSquare a index 0 0 0 w
    \<and> (heap w a = Some obj \<longrightarrow>
         fst (ClearSquare a index w) = Inr ()
       \<and> renderObjects (snd (ClearSquare a index w)) = renderObjects w
       \<and> (\<forall>b. b \<noteq> a \<longrightarrow> heap (snd (ClearSquare a index w)) b = heap w b)
       \<and> (\<exists>obj'. heap (snd (ClearSquare a index w)) a = Some obj'
            \<and> freeVert obj' = freeVert obj \<and> maxVert obj' = maxVert obj
            \<and> uvs (vao obj') = uvs (vao obj)
            \<and> (\<forall>k < 6. positions (vao obj') (sint index + int k)
                  = Some ((0 - halfWidth w) / halfWidth w, (0 - halfHeight w) / halfHeight w))
            \<and> (\<forall>j. j < sint index \<or> sint index + 6 \<le> j \<longrightarrow>
                  positions (vao obj') j = positions (vao obj) j)))"
proof (intro conjI impI)
  show "ClearSquare a index w = ModifyVertSquare a index 0 0 0 w"
    by (simp add: ClearSquare_def)
next
  assume h: "heap w a = Some obj"
  let ?p = "((0 - halfWidth w) / halfWidth w, (0 - halfHeight w) / halfHeight w)"
  have v: "vertices (fst (PixToScreen (ModifyVertSquare_verts 0 0 0) w)) = replicate 6 ?p"
    by (simp add: fst_PixToScreen ModifyVertSquare_verts_def Let_def numeral_eq_Suc)
  let ?obj' = "obj\<lparr> vao := UpdateVertBufferIndex (vao obj) index
                       (fst (PixToScreen (ModifyVertSquare_verts 0 0 0) w)) \<rparr>"
  from h show "fst (ClearSquare a index w) = Inr ()"
    and "renderObjects (snd (ClearSquare a index w)) = renderObjects w"
    and "\<forall>b. b \<noteq> a \<longrightarrow> heap (snd (ClearSquare a index w)) b = heap w b"
    by (simp_all add: ClearSquare_def ModifyVertSquare_allocated)
  from h have "heap (snd (ClearSquare a index w)) a = Some ?obj'"
    by (simp add: ClearSquare_def ModifyVertSquare_allocated)
  moreover have "\<forall>k < 6. positions (vao ?obj') (sint index + int k) = Some ?p"
    by (simp add: UpdateVertBufferIndex_def writeRange_apply v)
  moreover have "\<forall>j. j < sint index \<or> sint index + 6 \<le> j \<longrightarrow> positions (vao ?obj') j = positions (vao obj) j"
    by (auto simp: UpdateVertBufferIndex_def writeRange_apply v)
  ultimately show "\<exists>obj'. heap (snd (ClearSquare a index w)) a = Some obj'
            \<and> freeVert obj' = freeVert obj \<and> maxVert obj' = maxVert obj
            \<and> uvs (vao obj') = uvs (vao obj)
            \<and> (\<forall>k < 6. positions (vao obj') (sint index + int k) = Some ?p)
            \<and> (\<forall>j. j < sint index \<or> sint index + 6 \<le> j \<longrightarrow>
                  positions (vao obj') j = positions (vao obj) j)"
    by (simp add: UpdateVertBufferIndex_def)
qed

theorem ClearSquare_collapses_witness:
  "\<exists>obj'. heap (snd (ClearSquare 0 0 (CreateRenderObject 0 6 ''tex'' True (initial :: real world)))) 0
        = Some obj'
      \<and> freeVert obj' = 0 \<and> maxVert obj' = 6
      \<and> positions (vao obj') 0 = Some (- 1, - 1) \<and> positions (vao obj') 5 = Some (- 1, - 1)
      \<and> positions (vao obj') 6 = None"
proof -
  let ?W = "CreateRenderObject 0 6 ''tex'' True (initial :: real world)"
  let ?obj0 = "\<lparr> vao = CreateVAO (ucast (6 :: gint)) ''tex'' True, texture = ''tex'',
    freeVert = 0, maxVert = 6 \<rparr> :: real RenderObject"
  have h0: "heap ?W 0 = Some ?obj0"
    by (rule CreateRenderObject_heap)
  have hw: "halfWidth ?W = 400" "halfHeight ?W = 300"
    by (simp_all add: halfWidth_def halfHeight_def CreateRenderObject_def initial_def Let_def)
  from ClearSquare_collapses [of 0 0 ?W ?obj0] h0
  obtain obj' where o: "heap (snd (ClearSquare 0 0 ?W)) 0 = Some obj'"
    "freeVert obj' = 0" "maxVert obj' = 6"
    and p: "\<forall>k < 6. positions (vao obj') (sint (0 :: gint) + int k)
                  = Some ((0 - halfWidth ?W) / halfWidth ?W, (0 - halfHeight ?W) / halfHeight ?W)"
    and q: "\<forall>j. j < sint (0 :: gint) \<or> sint (0 :: gint) + 6 \<le> j \<longrightarrow>
                  positions (vao obj') j = positions (vao ?obj0) j"
    by auto
  from p [rule_format, of 0] p [rule_format, of 5] q [rule_format, of 6] hw
  have "positions (vao obj') 0 = Some (- 1, - 1)" "positions (vao obj') 5 = Some (- 1, - 1)"
    "positions (vao obj') 6 = None"
    by (simp_all add: CreateVAO_def)
  with o show ?thesis by blast
qed

text \<open>The two partial writes touch different attributes of the modelled buffer.\<close>

lemma Update_commute:
  "UpdateVertBufferIndex (UpdateTexBufferIndex v i texs) j verts
     = UpdateTexBufferIndex (UpdateVertBufferIndex v j verts) i texs"
  by (simp add: UpdateVertBufferIndex_def UpdateTexBufferIndex_def)

text \<open>
  Claim C8. On a created object, \<^verbatim>\<open>ModifyVertSquare\<close> followed by
  \<^verbatim>\<open>ModifyTexSquare\<close>, and \<^verbatim>\<open>ModifyTexSquare\<close> followed by \<^verbatim>\<open>ModifyVertSquare\<close>,
  with the same index and arguments, end in the state of the one call of
  \<^verbatim>\<open>ModifySquare\<close>; none of the calls fails.
\<close>

theorem ModifySquare_composition:
  assumes "heap w a = Some obj"
  shows "fst (ModifySquare ptt a index x y xTex yTex width widthTex w) = Inr ()
    \<and> fst (ModifyVertSquare a index x y width w) = Inr ()
    \<and> fst (ModifyTexSquare ptt a index xTex yTex widthTex w) = Inr ()
    \<and> ModifyTexSquare ptt a index xTex yTex widthTex (snd (ModifyVertSquare a index x y width w))
        = ModifySquare ptt a index x y xTex yTex width widthTex w
    \<and> ModifyVertSquare a index x y width (snd (ModifyTexSquare ptt a index xTex yTex widthTex w))
        = ModifySquare ptt a index x y xTex yTex width widthTex w"
proof -
  let ?texs = "ptt (texture obj) (ModifyTexSquare_texs xTex yTex widthTex)"
  let ?objT = "obj\<lparr> vao := UpdateTexBufferIndex (vao obj) index ?texs \<rparr>"
  let ?wT = "w\<lparr> heap := (heap w)(a \<mapsto> ?objT) \<rparr>"
  have t: "ModifyTexSquare ptt a index xTex yTex widthTex w = (Inr (), ?wT)"
    using assms by (simp add: ModifyTexSquare_allocated)
  have hT: "heap ?wT a = Some ?objT"
    by simp
  have f: "fst (PixToScreen (ModifyVertSquare_verts x y width) ?wT)
      = fst (PixToScreen (ModifyVertSquare_verts x y width) w)"
    by (simp add: fst_PixToScreen halfWidth_def halfHeight_def)
  have s: "snd (PixToScreen (ModifyVertSquare_verts x y width) ?wT)
      = (snd (PixToScreen (ModifyVertSquare_verts x y width) w))\<lparr> heap := (heap w)(a \<mapsto> ?objT) \<rparr>"
    by (simp add: snd_PixToScreen halfWidth_def halfHeight_def)
  have "ModifyVertSquare a index x y width ?wT
      = ModifySquare ptt a index x y xTex yTex width widthTex w"
    unfolding ModifyVertSquare_allocated [OF hT] ModifySquare_allocated [OF assms] f s
    by (simp add: Update_commute)
  moreover have "ModifyTexSquare ptt a index xTex yTex widthTex (snd (ModifyVertSquare a index x y width w))
        = ModifySquare ptt a index x y xTex yTex width widthTex w"
    using assms by (simp add: ModifySquare_def ModifyVertSquare_allocated)
  ultimately show ?thesis
    using assms t by (simp add: ModifySquare_allocated ModifyVertSquare_allocated)
qed

theorem ModifySquare_composition_witness:
  "fst (ModifySquare unitPixToTex 0 0 10 20 0 0 30 1
          (CreateRenderObject 0 6 ''tex'' True (initial :: real world))) = Inr ()
   \<and> ModifyVertSquare 0 0 10 20 30
        (snd (ModifyTexSquare unitPixToTex 0 0 0 0 1
          (CreateRenderObject 0 6 ''tex'' True (initial :: real world))))
      = ModifySquare unitPixToTex 0 0 10 20 0 0 30 1
          (CreateRenderObject 0 6 ''tex'' True (initial :: real world))
   \<and> ModifyTexSquare unitPixToTex 0 0 0 0 1
        (snd (ModifyVertSquare 0 0 10 20 30
          (CreateRenderObject 0 6 ''tex'' True (initial :: real world))))
      = ModifySquare unitPixToTex 0 0 10 20 0 0 30 1
          (CreateRenderObject 0 6 ''tex'' True (initial :: real world))"
proof -
  have h0: "heap (CreateRenderObject 0 6 ''tex'' True (initial :: real world)) 0
    = Some \<lparr> vao = CreateVAO (ucast (6 :: gint)) ''tex'' True, texture = ''tex'',
        freeVert = 0, maxVert = 6 \<rparr>"
    by (rule CreateRenderObject_heap)
  from ModifySquare_composition [OF h0, of unitPixToTex 0 10 20 0 0 30 1] show ?thesis
    by simp
qed

section \<open>The viewport\<close>





end
